theory Spec2Isabelle
  imports Main
begin

section \<open>System font file lookup (pptx/text/fonts.py)\<close>

text \<open>
  A shallow embedding of \<^verbatim>\<open>src/pptx/text/fonts.py\<close>: the binary stream reader
  (\<^verbatim>\<open>_Stream\<close>), the font parser (\<^verbatim>\<open>_Font\<close>, \<^verbatim>\<open>_TableFactory\<close>), the
  directory scanner and the class-level cache (\<^verbatim>\<open>FontFiles\<close>).

  Byte strings are Python 2 \<^verbatim>\<open>str\<close> values, modelled as \<^typ>\<open>string\<close> (a list of 8-bit
  characters). Exceptions are values of the type \<open>error\<close>; a function that can raise
  returns \<open>error + 'a\<close>, with \<open>Inl\<close> the exception. A generator is the list of the items
  it yields together with the exception that ends it, if any.
\<close>

subsection \<open>Exceptions\<close>

text \<open>
  The exceptions the module can raise, by their Python names. \<open>StructError\<close> is
  \<^verbatim>\<open>struct.error\<close> (a buffer too short for the template), \<open>KeyError\<close> a failed dict
  lookup, \<open>IOError\<close> a file that cannot be opened, \<open>OSError\<close> the
  \<^verbatim>\<open>OSError('unsupported operating system')\<close> of \<^verbatim>\<open>_font_directories\<close>,
  \<open>AttributeError\<close> the read of an attribute a class does not define, and
  \<open>IndexError\<close>, \<open>ValueError\<close>, \<open>TypeError\<close> the failures of tuple indexing, of tuple
  unpacking and of \<^verbatim>\<open>range\<close> on a value of the wrong shape.
\<close>

datatype error =
    StructError
  | KeyError
  | IOError
  | OSError
  | NotImplementedError
  | AttributeError
  | IndexError
  | ValueError
  | TypeError

subsection \<open>struct templates\<close>

text \<open>
  The two templates of the module are \<^verbatim>\<open>'>4sHHHH'\<close> and \<^verbatim>\<open>'>4sLLL'\<close>. The prefix
  \<^verbatim>\<open>>\<close> selects big-endian byte order, standard sizes and no padding; the rest is
  a sequence of field codes: \<^verbatim>\<open>4s\<close> a string of four bytes (\<open>Chars 4\<close>), \<^verbatim>\<open>H\<close> an
  unsigned 16-bit integer (\<open>U16\<close>), \<^verbatim>\<open>L\<close> an unsigned 32-bit integer (\<open>U32\<close>).
\<close>

datatype field_code = Chars nat | U16 | U32

datatype field_value = Str string | UInt nat

definition tmpl_4sHHHH :: "field_code list" where
  "tmpl_4sHHHH = [Chars 4, U16, U16, U16, U16]"

definition tmpl_4sLLL :: "field_code list" where
  "tmpl_4sLLL = [Chars 4, U32, U32, U32]"

fun field_size :: "field_code \<Rightarrow> nat" where
  "field_size (Chars n) = n"
| "field_size U16 = 2"
| "field_size U32 = 4"

definition calcsize :: "field_code list \<Rightarrow> nat" where
  "calcsize tmpl = sum_list (map field_size tmpl)"

text \<open>An unsigned big-endian integer: the first byte is the most significant.\<close>

definition be_uint :: "string \<Rightarrow> nat" where
  "be_uint bs = foldl (\<lambda>acc c. acc * 256 + of_char c) 0 bs"

fun decode_field :: "field_code \<Rightarrow> string \<Rightarrow> field_value" where
  "decode_field (Chars n) bs = Str (take n bs)"
| "decode_field U16 bs = UInt (be_uint (take 2 bs))"
| "decode_field U32 bs = UInt (be_uint (take 4 bs))"

fun decode_fields :: "field_code list \<Rightarrow> string \<Rightarrow> field_value list" where
  "decode_fields [] bs = []"
| "decode_fields (c # cs) bs =
     decode_field c bs # decode_fields cs (drop (field_size c) bs)"

text \<open>
  \<^verbatim>\<open>unpack_from(template, bufr, offset)\<close>: raises \<^verbatim>\<open>struct.error\<close> unless the buffer
  holds \<^verbatim>\<open>calcsize(template)\<close> bytes from \<^verbatim>\<open>offset\<close> on.
\<close>

definition unpack_from :: "field_code list \<Rightarrow> string \<Rightarrow> nat \<Rightarrow> error + field_value list" where
  "unpack_from tmpl bufr offset =
     (if length bufr < offset + calcsize tmpl then Inl StructError
      else Inr (decode_fields tmpl (drop offset bufr)))"

subsection \<open>The binary reader: class \<^verbatim>\<open>_Stream\<close>\<close>

text \<open>
  An open binary file is its contents and the position of its read cursor.
  \<^verbatim>\<open>seek(offset)\<close> sets the cursor (also beyond the end of the file) and
  \<^verbatim>\<open>read(length)\<close> returns at most \<^verbatim>\<open>length\<close> bytes from the cursor on, fewer at the
  end of the file, and advances the cursor past them. Offsets and lengths are unsigned.
\<close>

record stream =
  contents :: string
  pos :: nat

definition file_seek :: "nat \<Rightarrow> stream \<Rightarrow> stream" where
  "file_seek offset s = s\<lparr>pos := offset\<rparr>"

definition file_read :: "nat \<Rightarrow> stream \<Rightarrow> string \<times> stream" where
  "file_read n s =
     (let bs = take n (drop (pos s) (contents s))
      in (bs, s\<lparr>pos := pos s + length bs\<rparr>))"

text \<open>\<^verbatim>\<open>_Stream.read(offset, length)\<close>\<close>

definition read :: "nat \<Rightarrow> nat \<Rightarrow> stream \<Rightarrow> string \<times> stream" where
  "read offset len s = file_read len (file_seek offset s)"

text \<open>\<^verbatim>\<open>_Stream.read_fields(template, offset)\<close>\<close>

definition read_fields ::
  "field_code list \<Rightarrow> nat \<Rightarrow> stream \<Rightarrow> (error + field_value list) \<times> stream" where
  "read_fields tmpl offset s =
     (let (bufr, s') = file_read (calcsize tmpl) (file_seek offset s)
      in (unpack_from tmpl bufr 0, s'))"

subsection \<open>The font parser: class \<^verbatim>\<open>_Font\<close>\<close>

text \<open>
  The methods of \<^verbatim>\<open>_Font\<close> take the font's stream and return it with their result.
  The lazy properties cache a value that depends on the contents of the stream only,
  so the cache is not modelled.

  \<^verbatim>\<open>_fields\<close>: the five fields of the offset table,
  \<^verbatim>\<open>self._stream.read_fields('>4sHHHH', 0)\<close>.
\<close>

definition font_fields :: "stream \<Rightarrow> (error + field_value list) \<times> stream" where
  "font_fields s = read_fields tmpl_4sHHHH 0 s"

text \<open>\<^verbatim>\<open>_table_count\<close>: \<^verbatim>\<open>self._fields[1]\<close>.\<close>

definition table_count :: "stream \<Rightarrow> (error + field_value) \<times> stream" where
  "table_count s =
     (case font_fields s of
        (Inl e, s') \<Rightarrow> (Inl e, s')
      | (Inr vs, s') \<Rightarrow> (if 1 < length vs then Inr (vs ! 1) else Inl IndexError, s'))"

text \<open>
  \<^verbatim>\<open>_iter_table_records\<close> is a generator of \<^verbatim>\<open>(tag, off, len_)\<close> tuples. The loop
  \<^verbatim>\<open>for i in range(count)\<close> unpacks the entry at \<^verbatim>\<open>i * 16\<close> of the buffer, drops its
  checksum and yields the rest; \<^verbatim>\<open>struct.error\<close> ends the generator at the first entry
  the buffer does not hold.
\<close>

type_synonym table_record = "field_value \<times> field_value \<times> field_value"

fun unpack_records :: "string \<Rightarrow> nat list \<Rightarrow> table_record list \<times> error option" where
  "unpack_records bufr [] = ([], None)"
| "unpack_records bufr (i # is) =
     (case unpack_from tmpl_4sLLL bufr (i * 16) of
        Inl e \<Rightarrow> ([], Some e)
      | Inr [tag, checksum, off, len] \<Rightarrow>
          (case unpack_records bufr is of (rs, err) \<Rightarrow> ((tag, off, len) # rs, err))
      | Inr _ \<Rightarrow> ([], Some ValueError))"

definition iter_table_records :: "stream \<Rightarrow> (table_record list \<times> error option) \<times> stream" where
  "iter_table_records s =
     (case table_count s of
        (Inl e, s1) \<Rightarrow> (([], Some e), s1)
      | (Inr (Str _), s1) \<Rightarrow> (([], Some TypeError), s1)
      | (Inr (UInt count), s1) \<Rightarrow>
          (case read 12 (count * 16) s1 of
             (bufr, s2) \<Rightarrow> (unpack_records bufr [0..<count], s2)))"

subsection \<open>Table objects and \<^verbatim>\<open>_TableFactory\<close>\<close>

text \<open>
  The table classes: \<^verbatim>\<open>_BaseTable(tag, stream, offset, length)\<close>,
  \<^verbatim>\<open>_HeadTable(stream, offset, length)\<close> and \<^verbatim>\<open>_NameTable(stream, offset, length)\<close>.
  The stream they keep is the stream of the font.
\<close>

datatype table =
    BaseTable field_value field_value field_value
  | HeadTable field_value field_value
  | NameTable field_value field_value

text \<open>\<^verbatim>\<open>_TableFactory(tag, font_file, offset, length)\<close>: its body is \<^verbatim>\<open>raise NotImplementedError\<close>.\<close>

definition TableFactory ::
  "field_value \<Rightarrow> stream \<Rightarrow> field_value \<Rightarrow> field_value \<Rightarrow> error + table" where
  "TableFactory tag font_file offset len = Inl NotImplementedError"

text \<open>
  The attribute \<^verbatim>\<open>family_name\<close> of a table object: \<^verbatim>\<open>_NameTable.family_name\<close> raises
  \<^verbatim>\<open>NotImplementedError\<close>, the other classes do not define the attribute.
\<close>

fun table_family_name :: "table \<Rightarrow> error + string" where
  "table_family_name (NameTable offset len) = Inl NotImplementedError"
| "table_family_name (HeadTable offset len) = Inl AttributeError"
| "table_family_name (BaseTable tag offset len) = Inl AttributeError"

text \<open>
  \<^verbatim>\<open>_tables\<close>: \<^verbatim>\<open>dict((tag, _TableFactory(tag, self._stream, off, len_)) for ...)\<close>. The
  factory is called on each record as the generator yields it, so an exception of the
  factory comes before the exception that ends the generator.
\<close>

fun build_tables ::
  "stream \<Rightarrow> table_record list \<Rightarrow> (field_value \<rightharpoonup> table) \<Rightarrow> error + (field_value \<rightharpoonup> table)" where
  "build_tables s [] m = Inr m"
| "build_tables s ((tag, off, len) # rs) m =
     (case TableFactory tag s off len of
        Inl e \<Rightarrow> Inl e
      | Inr t \<Rightarrow> build_tables s rs (m(tag \<mapsto> t)))"

definition tables :: "stream \<Rightarrow> (error + (field_value \<rightharpoonup> table)) \<times> stream" where
  "tables s =
     (case iter_table_records s of
        ((rs, err), s') \<Rightarrow>
          (case build_tables s' rs Map.empty of
             Inl e \<Rightarrow> (Inl e, s')
           | Inr m \<Rightarrow> (case err of Some e \<Rightarrow> (Inl e, s') | None \<Rightarrow> (Inr m, s'))))"

text \<open>\<^verbatim>\<open>_Font.family_name\<close>: \<^verbatim>\<open>self._tables['name'].family_name\<close>.\<close>

definition family_name :: "stream \<Rightarrow> (error + string) \<times> stream" where
  "family_name s =
     (case tables s of
        (Inl e, s') \<Rightarrow> (Inl e, s')
      | (Inr m, s') \<Rightarrow>
          (case m (Str ''name'') of
             None \<Rightarrow> (Inl KeyError, s')
           | Some t \<Rightarrow> (table_family_name t, s')))"

text \<open>
  \<^verbatim>\<open>_Font\<close> defines neither \<^verbatim>\<open>is_bold\<close> nor \<^verbatim>\<open>is_italic\<close>: reading either attribute
  raises \<^verbatim>\<open>AttributeError\<close>.
\<close>

definition is_bold :: "stream \<Rightarrow> (error + bool) \<times> stream" where
  "is_bold s = (Inl AttributeError, s)"

definition is_italic :: "stream \<Rightarrow> (error + bool) \<times> stream" where
  "is_italic s = (Inl AttributeError, s)"

subsection \<open>The host: platform, environment and file system\<close>

text \<open>
  What the module reads from its host: \<^verbatim>\<open>sys.platform\<close>, \<^verbatim>\<open>os.environ.get('HOME')\<close>,
  \<^verbatim>\<open>os.getcwd()\<close>, the \<^verbatim>\<open>(root, dirs, files)\<close> triples that \<^verbatim>\<open>os.walk(directory)\<close>
  generates (none for a directory that cannot be listed: \<^verbatim>\<open>os.walk\<close> ignores the
  errors of the listing) and the contents of the files that \<^verbatim>\<open>open(path, 'rb')\<close> can
  open (\<open>None\<close>: the open raises \<^verbatim>\<open>IOError\<close>).
\<close>

record host =
  platform :: string
  home :: "string option"
  cwd :: string
  walk :: "string \<Rightarrow> (string \<times> string list \<times> string list) list"
  files :: "string \<rightharpoonup> string"

subsection \<open>Library functions on strings and paths\<close>

text \<open>\<^verbatim>\<open>s.startswith(prefix)\<close>\<close>

definition startswith :: "string \<Rightarrow> string \<Rightarrow> bool" where
  "startswith s prefix = (take (length prefix) s = prefix)"

text \<open>\<^verbatim>\<open>s.lower()\<close> on a byte string: the letters A to Z become a to z.\<close>

definition lower_char :: "char \<Rightarrow> char" where
  "lower_char c =
     (if (65::nat) \<le> of_char c \<and> of_char c \<le> (90::nat) then char_of (of_char c + (32::nat))
      else c)"

definition lower :: "string \<Rightarrow> string" where
  "lower s = map lower_char s"

text \<open>
  \<^verbatim>\<open>os.path.splitext(p)[1]\<close> of \<^verbatim>\<open>posixpath\<close>: the extension starts at the last dot of
  the last path component, and is empty when that component has no dot or only dots
  before its last dot.
\<close>

definition splitext_ext :: "string \<Rightarrow> string" where
  "splitext_ext p =
     (let name = rev (takeWhile (\<lambda>c. c \<noteq> CHR ''/'') (rev p));
          ext_rev = takeWhile (\<lambda>c. c \<noteq> CHR ''.'') (rev name)
      in case dropWhile (\<lambda>c. c \<noteq> CHR ''.'') (rev name) of
           [] \<Rightarrow> []
         | dot # before_rev \<Rightarrow>
             (if list_ex (\<lambda>c. c \<noteq> CHR ''.'') before_rev then CHR ''.'' # rev ext_rev
              else []))"

text \<open>\<^verbatim>\<open>os.path.isabs(p)\<close> and one step of \<^verbatim>\<open>os.path.join(a, b, ...)\<close> of \<^verbatim>\<open>posixpath\<close>.\<close>

definition isabs :: "string \<Rightarrow> bool" where
  "isabs p = startswith p ''/''"

definition join2 :: "string \<Rightarrow> string \<Rightarrow> string" where
  "join2 path b =
     (if startswith b ''/'' then b
      else if path = [] \<or> last path = CHR ''/'' then path @ b
      else path @ ''/'' @ b)"

definition path_join :: "string \<Rightarrow> string list \<Rightarrow> string" where
  "path_join a ps = foldl join2 a ps"

text \<open>\<^verbatim>\<open>p.split('/')\<close> and \<^verbatim>\<open>'/'.join(comps)\<close>\<close>

fun split_sep :: "string \<Rightarrow> string list" where
  "split_sep [] = [[]]"
| "split_sep (c # cs) =
     (if c = CHR ''/'' then [] # split_sep cs
      else (case split_sep cs of
              [] \<Rightarrow> [[c]]
            | x # xs \<Rightarrow> (c # x) # xs))"

fun join_sep :: "string list \<Rightarrow> string" where
  "join_sep [] = []"
| "join_sep [x] = x"
| "join_sep (x # y # ys) = x @ ''/'' @ join_sep (y # ys)"

text \<open>
  \<^verbatim>\<open>os.path.normpath(path)\<close> of \<^verbatim>\<open>posixpath\<close>: the loop over the components drops
  empty and \<^verbatim>\<open>.\<close> components and resolves \<^verbatim>\<open>..\<close> against the component before it.
\<close>

fun norm_comps :: "nat \<Rightarrow> string list \<Rightarrow> string list \<Rightarrow> string list" where
  "norm_comps initial_slashes new_comps [] = new_comps"
| "norm_comps initial_slashes new_comps (part # comps) =
     (if part = [] \<or> part = ''.'' then norm_comps initial_slashes new_comps comps
      else if part \<noteq> ''..'' \<or> (initial_slashes = 0 \<and> new_comps = [])
                \<or> (new_comps \<noteq> [] \<and> last new_comps = ''..'')
        then norm_comps initial_slashes (new_comps @ [part]) comps
      else if new_comps \<noteq> [] then norm_comps initial_slashes (butlast new_comps) comps
      else norm_comps initial_slashes new_comps comps)"

definition normpath :: "string \<Rightarrow> string" where
  "normpath path =
     (if path = [] then ''.''
      else
        let initial_slashes =
              (if startswith path ''/''
               then (if startswith path ''//'' \<and> \<not> startswith path ''///'' then 2 else 1)
               else (0::nat));
            comps = norm_comps initial_slashes [] (split_sep path);
            joined = replicate initial_slashes CHR ''/'' @ join_sep comps
        in if joined = [] then ''.'' else joined)"

text \<open>\<^verbatim>\<open>os.path.abspath(path)\<close>\<close>

definition abspath :: "host \<Rightarrow> string \<Rightarrow> string" where
  "abspath h path = normpath (if isabs path then path else path_join (cwd h) [path])"

subsection \<open>Opening one font file\<close>

text \<open>
  A font descriptor is the key of the registry: \<^verbatim>\<open>(family_name, is_bold, is_italic)\<close>.
\<close>

type_synonym font_key = "string \<times> bool \<times> bool"

text \<open>
  The statement \<^verbatim>\<open>with _Font.open(path) as f\<close> and the key it builds,
  \<^verbatim>\<open>(f.family_name, f.is_bold, f.is_italic)\<close>: the file is opened, the three attributes
  are read from left to right, and the first exception leaves the block (which closes
  the stream).
\<close>

definition font_key_of :: "host \<Rightarrow> string \<Rightarrow> error + font_key" where
  "font_key_of h path =
     (case files h path of
        None \<Rightarrow> Inl IOError
      | Some bs \<Rightarrow>
          (case family_name \<lparr>contents = bs, pos = 0\<rparr> of
             (Inl e, s1) \<Rightarrow> Inl e
           | (Inr name, s1) \<Rightarrow>
               (case is_bold s1 of
                  (Inl e, s2) \<Rightarrow> Inl e
                | (Inr bold, s2) \<Rightarrow>
                    (case is_italic s2 of
                       (Inl e, s3) \<Rightarrow> Inl e
                     | (Inr italic, s3) \<Rightarrow> Inr (name, bold, italic)))))"

subsection \<open>The directory scanner: \<^verbatim>\<open>FontFiles._iter_font_files_in\<close>\<close>

text \<open>
  The effects of a scan on the file system are recorded as events: a call of
  \<^verbatim>\<open>os.walk\<close> on a directory and the opening of a file.
\<close>

datatype event = Walk string | Open string

text \<open>
  The generator, as a triple: the items it yields, the events it causes and the
  exception that ends it, if any. The scanner is defined for any reader \<open>rd\<close> of a font
  file (the \<^verbatim>\<open>with\<close> block), so that its control flow is verified for every reader;
  the reader of the class is \<^const>\<open>font_key_of\<close>.

  The inner loop, \<^verbatim>\<open>for filename in files\<close>: there is no \<^verbatim>\<open>try\<close> around the
  \<^verbatim>\<open>with\<close> block, so an exception of the reader ends the generator.
\<close>

fun scan_files ::
  "(string \<Rightarrow> error + font_key) \<Rightarrow> host \<Rightarrow> string \<Rightarrow> string list
     \<Rightarrow> (font_key \<times> string) list \<times> event list \<times> error option" where
  "scan_files rd h root [] = ([], [], None)"
| "scan_files rd h root (filename # filenames) =
     (let file_ext = splitext_ext filename in
      if lower file_ext \<notin> set [''.otf'', ''.ttf''] then scan_files rd h root filenames
      else
        let path = abspath h (path_join root [filename]) in
        case rd path of
          Inl e \<Rightarrow> ([], [Open path], Some e)
        | Inr key \<Rightarrow>
            (case scan_files rd h root filenames of
               (items, evs, err) \<Rightarrow> ((key, path) # items, Open path # evs, err)))"

text \<open>The outer loop, \<^verbatim>\<open>for root, dirs, files in os.walk(directory)\<close>.\<close>

fun scan_walk ::
  "(string \<Rightarrow> error + font_key) \<Rightarrow> host \<Rightarrow> (string \<times> string list \<times> string list) list
     \<Rightarrow> (font_key \<times> string) list \<times> event list \<times> error option" where
  "scan_walk rd h [] = ([], [], None)"
| "scan_walk rd h ((root, dirs, filenames) # triples) =
     (case scan_files rd h root filenames of
        (items, evs, Some e) \<Rightarrow> (items, evs, Some e)
      | (items, evs, None) \<Rightarrow>
          (case scan_walk rd h triples of
             (items', evs', err) \<Rightarrow> (items @ items', evs @ evs', err)))"

definition iter_font_files_in_with ::
  "(string \<Rightarrow> error + font_key) \<Rightarrow> host \<Rightarrow> string
     \<Rightarrow> (font_key \<times> string) list \<times> event list \<times> error option" where
  "iter_font_files_in_with rd h directory =
     (case scan_walk rd h (walk h directory) of
        (items, evs, err) \<Rightarrow> (items, Walk directory # evs, err))"

definition iter_font_files_in ::
  "host \<Rightarrow> string \<Rightarrow> (font_key \<times> string) list \<times> event list \<times> error option" where
  "iter_font_files_in h directory = iter_font_files_in_with (font_key_of h) h directory"

subsection \<open>The platform's font directories\<close>

text \<open>\<^verbatim>\<open>FontFiles._os_x_font_directories\<close>\<close>

definition os_x_font_directories :: "host \<Rightarrow> string list" where
  "os_x_font_directories h =
     (let os_x_font_dirs = [''/Library/Fonts'', ''/Network/Library/Fonts'', ''/System/Library/Fonts'']
      in case home h of
           None \<Rightarrow> os_x_font_dirs
         | Some hm \<Rightarrow>
             os_x_font_dirs
               @ [path_join hm [''Library'', ''Fonts''], path_join hm [''.fonts'']])"

text \<open>\<^verbatim>\<open>FontFiles._windows_font_directories\<close>: its body is \<^verbatim>\<open>raise NotImplementedError\<close>.\<close>

definition windows_font_directories :: "host \<Rightarrow> error + string list" where
  "windows_font_directories h = Inl NotImplementedError"

text \<open>\<^verbatim>\<open>FontFiles._font_directories\<close>\<close>

definition font_directories :: "host \<Rightarrow> error + string list" where
  "font_directories h =
     (if startswith (platform h) ''darwin'' then Inr (os_x_font_directories h)
      else if startswith (platform h) ''win32'' then windows_font_directories h
      else Inl OSError)"

subsection \<open>The registry: \<^verbatim>\<open>FontFiles._installed_fonts\<close> and \<^verbatim>\<open>FontFiles.find\<close>\<close>

text \<open>The loop \<^verbatim>\<open>for key, path in ...: fonts[key] = path\<close> over the items of one scan.\<close>

fun store_items ::
  "(font_key \<times> string) list \<Rightarrow> (font_key \<rightharpoonup> string) \<Rightarrow> (font_key \<rightharpoonup> string)" where
  "store_items [] fonts = fonts"
| "store_items ((key, path) # items) fonts = store_items items (fonts(key \<mapsto> path))"

text \<open>
  The loop \<^verbatim>\<open>for d in cls._font_directories()\<close>. An exception of a scan leaves
  \<^verbatim>\<open>_installed_fonts\<close>, and the dict built so far is lost with it.
\<close>

fun scan_directories ::
  "(string \<Rightarrow> error + font_key) \<Rightarrow> host \<Rightarrow> string list \<Rightarrow> (font_key \<rightharpoonup> string)
     \<Rightarrow> (error + (font_key \<rightharpoonup> string)) \<times> event list" where
  "scan_directories rd h [] fonts = (Inr fonts, [])"
| "scan_directories rd h (d # ds) fonts =
     (case iter_font_files_in_with rd h d of
        (items, evs, Some e) \<Rightarrow> (Inl e, evs)
      | (items, evs, None) \<Rightarrow>
          (case scan_directories rd h ds (store_items items fonts) of
             (r, evs') \<Rightarrow> (r, evs @ evs')))"

definition installed_fonts_with ::
  "(string \<Rightarrow> error + font_key) \<Rightarrow> host \<Rightarrow> (error + (font_key \<rightharpoonup> string)) \<times> event list" where
  "installed_fonts_with rd h =
     (case font_directories h of
        Inl e \<Rightarrow> (Inl e, [])
      | Inr ds \<Rightarrow> scan_directories rd h ds Map.empty)"

definition installed_fonts :: "host \<Rightarrow> (error + (font_key \<rightharpoonup> string)) \<times> event list" where
  "installed_fonts h = installed_fonts_with (font_key_of h) h"

text \<open>
  The class attribute \<^verbatim>\<open>FontFiles._font_files\<close>: \<^verbatim>\<open>None\<close> until a registry is
  assigned to it.
\<close>

record FontFiles =
  font_files :: "(font_key \<rightharpoonup> string) option"

text \<open>The subscription \<^verbatim>\<open>fonts[key]\<close> of a dict.\<close>

definition getitem :: "(font_key \<rightharpoonup> string) \<Rightarrow> font_key \<Rightarrow> error + string" where
  "getitem fonts key = (case fonts key of None \<Rightarrow> Inl KeyError | Some path \<Rightarrow> Inr path)"

text \<open>
  \<^verbatim>\<open>FontFiles.find(family_name, is_bold, is_italic)\<close>: the result or the exception, the
  class after the call and the events of the call.
\<close>

definition find_with ::
  "(string \<Rightarrow> error + font_key) \<Rightarrow> host \<Rightarrow> FontFiles \<Rightarrow> string \<Rightarrow> bool \<Rightarrow> bool
     \<Rightarrow> (error + string) \<times> FontFiles \<times> event list" where
  "find_with rd h cls name bold italic =
     (case font_files cls of
        None \<Rightarrow>
          (case installed_fonts_with rd h of
             (Inl e, evs) \<Rightarrow> (Inl e, cls, evs)
           | (Inr fonts, evs) \<Rightarrow>
               (getitem fonts (name, bold, italic), cls\<lparr>font_files := Some fonts\<rparr>, evs))
      | Some fonts \<Rightarrow> (getitem fonts (name, bold, italic), cls, []))"

definition find_font ::
  "host \<Rightarrow> FontFiles \<Rightarrow> string \<Rightarrow> bool \<Rightarrow> bool \<Rightarrow> (error + string) \<times> FontFiles \<times> event list" where
  "find_font h cls name bold italic = find_with (font_key_of h) h cls name bold italic"

subsection \<open>The parse as the specification words it\<close>

text \<open>
  The offset table is the first 12 bytes of the file: a version tag of 4 bytes and four
  unsigned 16-bit fields, of which the first is the number of tables. The table directory
  follows it at offset 12, one entry of 16 bytes per table: the tag (4 bytes), a checksum
  (4 bytes), the offset and the length of the table (4 bytes each), all big-endian.
\<close>

definition spec_offset_table :: "string \<Rightarrow> field_value list" where
  "spec_offset_table bs =
     [Str (take 4 bs),
      UInt (be_uint (take 2 (drop 4 bs))),
      UInt (be_uint (take 2 (drop 6 bs))),
      UInt (be_uint (take 2 (drop 8 bs))),
      UInt (be_uint (take 2 (drop 10 bs)))]"

definition spec_table_count :: "string \<Rightarrow> nat" where
  "spec_table_count bs = be_uint (take 2 (drop 4 bs))"

definition spec_table_record :: "string \<Rightarrow> nat \<Rightarrow> table_record" where
  "spec_table_record bs i =
     (Str (take 4 (drop (12 + 16 * i) bs)),
      UInt (be_uint (take 4 (drop (12 + 16 * i + 8) bs))),
      UInt (be_uint (take 4 (drop (12 + 16 * i + 12) bs))))"

subsection \<open>Notions used to state the properties of a scan\<close>

text \<open>A filename with the extension of a font file, compared without regard to case.\<close>

definition has_font_ext :: "string \<Rightarrow> bool" where
  "has_font_ext filename = (lower (splitext_ext filename) \<in> set [''.otf'', ''.ttf''])"

text \<open>
  The paths of the font files of a walk, in the order of the walk: for each
  \<^verbatim>\<open>(root, dirs, files)\<close> triple, the files with a font extension, joined to the root and
  made absolute.
\<close>

definition font_paths :: "host \<Rightarrow> (string \<times> string list \<times> string list) list \<Rightarrow> string list" where
  "font_paths h triples =
     concat (map (\<lambda>(root, dirs, filenames).
       map (\<lambda>filename. abspath h (path_join root [filename])) (filter has_font_ext filenames))
       triples)"

text \<open>The paths a reader reads without an exception, up to the first it fails on.\<close>

definition readable :: "(string \<Rightarrow> error + font_key) \<Rightarrow> string list \<Rightarrow> string list" where
  "readable rd paths = takeWhile (\<lambda>path. \<not> isl (rd path)) paths"

text \<open>
  The outcome of reading a list of paths in order and stopping at the first failure:
  an item for each path read before the failure, the opening of these paths and of the
  path the reader fails on, and the exception of that failure.
\<close>

definition read_in_order ::
  "(string \<Rightarrow> error + font_key) \<Rightarrow> string list
     \<Rightarrow> (font_key \<times> string) list \<times> event list \<times> error option" where
  "read_in_order rd paths =
     (map (\<lambda>path. (projr (rd path), path)) (readable rd paths),
      map Open (take (Suc (length (readable rd paths))) paths),
      case dropWhile (\<lambda>path. \<not> isl (rd path)) paths of
        [] \<Rightarrow> None
      | path # rest \<Rightarrow> Some (projl (rd path)))"

fun is_walk :: "event \<Rightarrow> bool" where
  "is_walk (Walk directory) = True"
| "is_walk (Open path) = False"

subsection \<open>Example font files, hosts and readers\<close>

text \<open>
  A file of 12 bytes, an offset table that announces no table; and a file of 28 bytes,
  an offset table that announces one table and the directory entry of a \<^verbatim>\<open>head\<close> table
  (checksum \<^verbatim>\<open>0x12345678\<close>, offset 28, length 54).
\<close>

definition font_no_tables :: string where
  "font_no_tables =
     [CHR 0x00, CHR 0x01, CHR 0x00, CHR 0x00, CHR 0x00, CHR 0x00,
      CHR 0x00, CHR 0x00, CHR 0x00, CHR 0x00, CHR 0x00, CHR 0x00]"

definition font_head_only :: string where
  "font_head_only =
     [CHR 0x00, CHR 0x01, CHR 0x00, CHR 0x00, CHR 0x00, CHR 0x01,
      CHR 0x00, CHR 0x10, CHR 0x00, CHR 0x00, CHR 0x00, CHR 0x00]
     @ ''head''
     @ [CHR 0x12, CHR 0x34, CHR 0x56, CHR 0x78,
        CHR 0x00, CHR 0x00, CHR 0x00, CHR 0x1C,
        CHR 0x00, CHR 0x00, CHR 0x00, CHR 0x36]"

text \<open>The same file with the directory entry of a \<^verbatim>\<open>name\<close> table in place of the \<^verbatim>\<open>head\<close> table.\<close>

definition font_name_only :: string where
  "font_name_only =
     [CHR 0x00, CHR 0x01, CHR 0x00, CHR 0x00, CHR 0x00, CHR 0x01,
      CHR 0x00, CHR 0x10, CHR 0x00, CHR 0x00, CHR 0x00, CHR 0x00]
     @ ''name''
     @ [CHR 0x12, CHR 0x34, CHR 0x56, CHR 0x78,
        CHR 0x00, CHR 0x00, CHR 0x00, CHR 0x1C,
        CHR 0x00, CHR 0x00, CHR 0x00, CHR 0x36]"

text \<open>
  A Mac whose \<^verbatim>\<open>/Library/Fonts\<close> holds an empty file \<^verbatim>\<open>bad.ttf\<close>, a text file and the font
  \<^verbatim>\<open>Good.OTF\<close>, and whose \<^verbatim>\<open>/System/Library/Fonts\<close> holds \<^verbatim>\<open>A.TTF\<close> and, in a
  subdirectory, \<^verbatim>\<open>b.otf\<close>.
\<close>

definition host_mac :: host where
  "host_mac =
     \<lparr>platform = ''darwin'', home = None, cwd = ''/'',
      walk = (\<lambda>d.
        if d = ''/Library/Fonts''
          then [(''/Library/Fonts'', [], [''bad.ttf'', ''notes.txt'', ''Good.OTF''])]
        else if d = ''/System/Library/Fonts''
          then [(''/System/Library/Fonts'', [''sub''], [''A.TTF'']),
                (''/System/Library/Fonts/sub'', [], [''b.otf''])]
        else []),
      files =
        [''/Library/Fonts/bad.ttf'' \<mapsto> [],
         ''/Library/Fonts/notes.txt'' \<mapsto> ''fonts'',
         ''/Library/Fonts/Good.OTF'' \<mapsto> font_head_only,
         ''/System/Library/Fonts/A.TTF'' \<mapsto> font_no_tables,
         ''/System/Library/Fonts/sub/b.otf'' \<mapsto> font_head_only]\<rparr>"

text \<open>The same machine under a platform name the module does not know, and under Windows.\<close>

definition host_linux :: host where
  "host_linux = host_mac\<lparr>platform := ''linux2''\<rparr>"

definition host_windows :: host where
  "host_windows = host_mac\<lparr>platform := ''win32''\<rparr>"

text \<open>
  A Mac with a home directory whose \<^verbatim>\<open>/Library/Fonts\<close> holds \<^verbatim>\<open>a.ttf\<close>, a text file and
  \<^verbatim>\<open>b.TTF\<close>; and a reader that reads every file as the regular style of one family.
\<close>

definition host_arial :: host where
  "host_arial =
     \<lparr>platform = ''darwin'', home = Some ''/Users/me'', cwd = ''/Users/me'',
      walk = (\<lambda>d.
        if d = ''/Library/Fonts''
          then [(''/Library/Fonts'', [], [''a.ttf'', ''readme.txt'', ''b.TTF''])]
        else []),
      files = Map.empty\<rparr>"

definition arial_reader :: "string \<Rightarrow> error + font_key" where
  "arial_reader path = Inr (''Arial'', False, False)"

text \<open>A reader that fails on \<^verbatim>\<open>b.TTF\<close> only.\<close>

definition picky_reader :: "string \<Rightarrow> error + font_key" where
  "picky_reader path =
     (if path = ''/Library/Fonts/b.TTF'' then Inl StructError else Inr (''Arial'', False, False))"

section \<open>Properties\<close>

subsection \<open>The binary reader\<close>

lemma read_value: "fst (read offset len s) = take len (drop offset (contents s))"
  by (simp add: read_def file_read_def file_seek_def Let_def)

lemma read_contents: "contents (snd (read offset len s)) = contents s"
  by (simp add: read_def file_read_def file_seek_def Let_def)

lemma read_fields_value:
  "fst (read_fields tmpl offset s) =
     unpack_from tmpl (take (calcsize tmpl) (drop offset (contents s))) 0"
  by (simp add: read_fields_def file_read_def file_seek_def Let_def)

lemma read_fields_contents: "contents (snd (read_fields tmpl offset s)) = contents s"
  by (simp add: read_fields_def file_read_def file_seek_def Let_def)

text \<open>
  C9. A read returns the bytes at its absolute offset, whatever the cursor of the
  stream: the value of a read after another read, by \<^verbatim>\<open>read\<close> or \<^verbatim>\<open>read_fields\<close>, is
  its value on the stream before that read, so two reads return the same values in
  either order; and the value does not depend on the cursor the stream starts with.
\<close>

theorem reads_independent_of_order:
  "fst (read offset2 len2 (snd (read offset1 len1 s))) = fst (read offset2 len2 s)
   \<and> fst (read offset1 len1 (snd (read offset2 len2 s))) = fst (read offset1 len1 s)
   \<and> fst (read_fields tmpl2 offset2 (snd (read_fields tmpl1 offset1 s)))
       = fst (read_fields tmpl2 offset2 s)
   \<and> fst (read_fields tmpl2 offset2 (snd (read offset1 len1 s)))
       = fst (read_fields tmpl2 offset2 s)
   \<and> fst (read offset2 len2 (snd (read_fields tmpl1 offset1 s))) = fst (read offset2 len2 s)
   \<and> fst (read offset1 len1 (s\<lparr>pos := p\<rparr>)) = fst (read offset1 len1 s)
   \<and> fst (read_fields tmpl1 offset1 (s\<lparr>pos := p\<rparr>)) = fst (read_fields tmpl1 offset1 s)"
  by (simp add: read_value read_contents read_fields_value read_fields_contents)

subsection \<open>The font parser\<close>

lemma calcsize_4sHHHH: "calcsize tmpl_4sHHHH = 12"
  by (simp add: calcsize_def tmpl_4sHHHH_def)

lemma unpack_from_4sHHHH:
  "unpack_from tmpl_4sHHHH bufr 0 =
     (if length bufr < 12 then Inl StructError else Inr (spec_offset_table bufr))"
  by (simp add: unpack_from_def calcsize_def tmpl_4sHHHH_def spec_offset_table_def)

lemma unpack_from_4sLLL:
  "unpack_from tmpl_4sLLL bufr offset =
     (if length bufr < offset + 16 then Inl StructError
      else Inr [Str (take 4 (drop offset bufr)),
                UInt (be_uint (take 4 (drop (offset + 4) bufr))),
                UInt (be_uint (take 4 (drop (offset + 8) bufr))),
                UInt (be_uint (take 4 (drop (offset + 12) bufr)))])"
  by (simp add: unpack_from_def calcsize_def tmpl_4sLLL_def add.commute)

lemma spec_offset_table_take: "12 \<le> n \<Longrightarrow> spec_offset_table (take n bs) = spec_offset_table bs"
  by (simp add: spec_offset_table_def drop_take min_def)

lemma font_fields_value:
  "fst (font_fields s) =
     (if length (contents s) < 12 then Inl StructError
      else Inr (spec_offset_table (contents s)))"
  by (simp add: font_fields_def read_fields_value unpack_from_4sHHHH calcsize_4sHHHH
      spec_offset_table_take)

lemma font_fields_contents: "contents (snd (font_fields s)) = contents s"
  by (simp add: font_fields_def read_fields_contents)

lemma table_count_value:
  "fst (table_count s) =
     (if length (contents s) < 12 then Inl StructError
      else Inr (UInt (spec_table_count (contents s))))"
  using font_fields_value [of s]
  by (cases "font_fields s")
     (auto simp: table_count_def spec_offset_table_def spec_table_count_def split: sum.splits)

lemma table_count_contents: "contents (snd (table_count s)) = contents s"
  using font_fields_contents [of s]
  by (cases "font_fields s") (auto simp: table_count_def split: sum.splits)

lemma unpack_records_all:
  assumes "\<forall>i \<in> set is. 16 * i + 16 \<le> length bufr"
  shows "unpack_records bufr is =
           (map (\<lambda>i. (Str (take 4 (drop (16 * i) bufr)),
                       UInt (be_uint (take 4 (drop (16 * i + 8) bufr))),
                       UInt (be_uint (take 4 (drop (16 * i + 12) bufr))))) is, None)"
  using assms
  by (induction "is") (simp_all add: unpack_from_4sLLL mult.commute)

lemma unpack_records_short:
  assumes "length bufr < 16 * i + 16"
  shows "unpack_records bufr (i # is) = ([], Some StructError)"
  using assms by (simp add: unpack_from_4sLLL mult.commute)

lemma unpack_records_first:
  assumes "16 \<le> length bufr"
  shows "\<exists>r rs err. unpack_records bufr (0 # is) = (r # rs, err)"
  using assms by (cases "unpack_records bufr is") (simp add: unpack_from_4sLLL)

lemma iter_table_records_value:
  assumes "12 + 16 * spec_table_count (contents s) \<le> length (contents s)"
  shows "fst (iter_table_records s) =
           (map (spec_table_record (contents s)) [0..<spec_table_count (contents s)], None)"
proof -
  let ?bs = "contents s" and ?n = "spec_table_count (contents s)"
  obtain r s1 where tc: "table_count s = (r, s1)" by (cases "table_count s")
  from assms have len: "\<not> length ?bs < 12" by simp
  from tc table_count_value [of s] len have r: "r = Inr (UInt ?n)" by simp
  from tc table_count_contents [of s] have s1: "contents s1 = ?bs" by simp
  obtain bufr s2 where rd: "read 12 (?n * 16) s1 = (bufr, s2)" by (cases "read 12 (?n * 16) s1")
  from rd read_value [of 12 "?n * 16" s1] s1 have bufr: "bufr = take (?n * 16) (drop 12 ?bs)"
    by simp
  from assms have lb: "length bufr = 16 * ?n" by (simp add: bufr)
  have all: "\<forall>i \<in> set [0..<?n]. 16 * i + 16 \<le> length bufr"
    using lb by auto
  have entry: "\<And>i. i < ?n \<Longrightarrow>
      (Str (take 4 (drop (16 * i) bufr)),
       UInt (be_uint (take 4 (drop (16 * i + 8) bufr))),
       UInt (be_uint (take 4 (drop (16 * i + 12) bufr)))) = spec_table_record ?bs i"
    by (simp add: bufr spec_table_record_def drop_take min_def add.commute add.left_commute)
  have "fst (iter_table_records s) = unpack_records bufr [0..<?n]"
    by (simp add: iter_table_records_def tc r rd)
  also have "\<dots> = (map (spec_table_record ?bs) [0..<?n], None)"
    unfolding unpack_records_all [OF all] using entry by simp
  finally show ?thesis .
qed


lemma iter_table_records_short:
  assumes "length (contents s) < 12"
  shows "fst (iter_table_records s) = ([], Some StructError)"
  using assms table_count_value [of s]
  by (cases "table_count s") (simp add: iter_table_records_def)

lemma iter_table_records_unpack:
  assumes "12 \<le> length (contents s)"
  shows "fst (iter_table_records s) =
           unpack_records (take (spec_table_count (contents s) * 16) (drop 12 (contents s)))
             [0..<spec_table_count (contents s)]"
proof -
  obtain r s1 where tc: "table_count s = (r, s1)" by (cases "table_count s")
  from tc table_count_value [of s] assms have r: "r = Inr (UInt (spec_table_count (contents s)))"
    by simp
  from tc table_count_contents [of s] have s1: "contents s1 = contents s" by simp
  obtain bufr s2 where rd: "read 12 (spec_table_count (contents s) * 16) s1 = (bufr, s2)"
    by (cases "read 12 (spec_table_count (contents s) * 16) s1")
  from rd read_value [of 12 "spec_table_count (contents s) * 16" s1] s1
  have "bufr = take (spec_table_count (contents s) * 16) (drop 12 (contents s))" by simp
  then show ?thesis by (simp add: iter_table_records_def tc r rd)
qed

lemma build_tables_Cons: "build_tables s (r # rs) m = Inl NotImplementedError"
  by (cases r) (simp add: TableFactory_def)

lemma tables_value:
  "fst (tables s) =
     (case fst (iter_table_records s) of
        ([], None) \<Rightarrow> Inr Map.empty
      | ([], Some e) \<Rightarrow> Inl e
      | (r # rs, err) \<Rightarrow> Inl NotImplementedError)"
  by (cases "iter_table_records s")
     (auto simp: tables_def build_tables_Cons split: prod.splits list.splits option.splits)

lemma family_name_tables:
  "fst (family_name s) =
     (case fst (tables s) of
        Inl e \<Rightarrow> Inl e
      | Inr m \<Rightarrow> (case m (Str ''name'') of None \<Rightarrow> Inl KeyError | Some t \<Rightarrow> table_family_name t))"
  by (cases "tables s") (auto simp: family_name_def split: sum.splits option.splits)

lemma family_name_value:
  "fst (family_name s) =
     (if length (contents s) < 12 then Inl StructError
      else if spec_table_count (contents s) = 0 then Inl KeyError
      else if length (contents s) < 28 then Inl StructError
      else Inl NotImplementedError)"
proof -
  let ?bs = "contents s" and ?n = "spec_table_count (contents s)"
  let ?bufr = "take (?n * 16) (drop 12 ?bs)"
  consider (short) "length ?bs < 12"
    | (none) "12 \<le> length ?bs" "?n = 0"
    | (cut) "12 \<le> length ?bs" "0 < ?n" "length ?bs < 28"
    | (some) "0 < ?n" "28 \<le> length ?bs"
    by linarith
  then show ?thesis
  proof cases
    case short
    then show ?thesis
      by (simp add: family_name_tables tables_value iter_table_records_short)
  next
    case none
    then show ?thesis
      by (simp add: family_name_tables tables_value iter_table_records_unpack)
  next
    case cut
    then have "length ?bufr < 16 * 0 + 16" by simp
    then have "unpack_records ?bufr (0 # [Suc 0..<?n]) = ([], Some StructError)"
      by (rule unpack_records_short)
    moreover have "[0..<?n] = 0 # [Suc 0..<?n]" using cut by (simp add: upt_rec)
    ultimately show ?thesis using cut
      by (simp add: family_name_tables tables_value iter_table_records_unpack)
  next
    case some
    then have "16 \<le> length ?bufr" by simp
    then obtain r rs err where "unpack_records ?bufr (0 # [Suc 0..<?n]) = (r # rs, err)"
      using unpack_records_first by blast
    moreover have "[0..<?n] = 0 # [Suc 0..<?n]" using some by (simp add: upt_rec)
    ultimately show ?thesis using some
      by (simp add: family_name_tables tables_value iter_table_records_unpack)
  qed
qed

text \<open>
  With \<^verbatim>\<open>_TableFactory\<close> as it is, \<^verbatim>\<open>family_name\<close> raises on every file, so the
  reader of the class returns no descriptor.
\<close>

lemma font_key_of_fails: "isl (font_key_of h path)"
  using family_name_value [of "\<lparr>contents = the (files h path), pos = 0\<rparr>"]
  by (cases "family_name \<lparr>contents = the (files h path), pos = 0\<rparr>")
     (auto simp: font_key_of_def split: option.splits sum.splits if_splits)


lemma length_font_no_tables: "length font_no_tables = 12"
  by (simp add: font_no_tables_def)

lemma count_font_no_tables: "spec_table_count font_no_tables = 0"
  by (simp add: font_no_tables_def spec_table_count_def be_uint_def)

lemma length_font_name_only: "length font_name_only = 28"
  by (simp add: font_name_only_def)

lemma count_font_name_only: "spec_table_count font_name_only = 1"
  by (simp add: font_name_only_def spec_table_count_def be_uint_def)

lemma record_font_name_only: "spec_table_record font_name_only 0 = (Str ''name'', UInt 28, UInt 54)"
  by (simp add: font_name_only_def spec_table_record_def be_uint_def)

lemma length_font_head_only: "length font_head_only = 28"
  by (simp add: font_head_only_def)

lemma count_font_head_only: "spec_table_count font_head_only = 1"
  by (simp add: font_head_only_def spec_table_count_def be_uint_def)

lemma record_font_head_only: "spec_table_record font_head_only 0 = (Str ''head'', UInt 28, UInt 54)"
  by (simp add: font_head_only_def spec_table_record_def be_uint_def)


text \<open>
  C1. For every font whose file holds the 12 bytes of the offset table, the fields the
  parser reads are the version tag and the four big-endian 16-bit fields at offset 0,
  and the table count is the second of them; when the file also holds the table
  directory, 16 bytes per table from offset 12 on, the parser yields one record per
  table, in order: the tag, the offset and the length of the entry, decoded big-endian,
  without the checksum between the tag and the offset.
\<close>

theorem parse_follows_algorithm:
  assumes "12 \<le> length (contents s)"
  shows "fst (font_fields s) = Inr (spec_offset_table (contents s))
         \<and> spec_offset_table (contents s) ! 1 = UInt (spec_table_count (contents s))
         \<and> fst (table_count s) = Inr (UInt (spec_table_count (contents s)))
         \<and> (12 + 16 * spec_table_count (contents s) \<le> length (contents s) \<longrightarrow>
              fst (iter_table_records s) =
                (map (spec_table_record (contents s)) [0..<spec_table_count (contents s)], None))"
  using assms
  by (simp add: font_fields_value table_count_value iter_table_records_value
      spec_offset_table_def spec_table_count_def)

theorem parse_follows_algorithm_witness:
  "12 \<le> length (contents \<lparr>contents = font_head_only, pos = 0\<rparr>)
   \<and> fst (table_count \<lparr>contents = font_head_only, pos = 0\<rparr>) = Inr (UInt 1)
   \<and> fst (iter_table_records \<lparr>contents = font_head_only, pos = 0\<rparr>)
       = ([(Str ''head'', UInt 28, UInt 54)], None)"
  using parse_follows_algorithm [of "\<lparr>contents = font_head_only, pos = 0\<rparr>"]
  by (simp add: length_font_head_only count_font_head_only record_font_head_only)

text \<open>
  C7. \<^verbatim>\<open>family_name\<close> is \<^verbatim>\<open>self._tables['name'].family_name\<close>: it is to raise the
  \<^verbatim>\<open>KeyError\<close> of the lookup (the specification's \<^verbatim>\<open>MissingTableError\<close>) when the
  directory has no \<^verbatim>\<open>name\<close> table, and to read the name from the table object of the
  \<^verbatim>\<open>name\<close> table otherwise. The code does the first on an empty directory only.
  On a directory with an entry, building \<^verbatim>\<open>_tables\<close> calls \<^verbatim>\<open>_TableFactory\<close>, which
  its docstring says returns the table object for the tag and whose body raises
  \<^verbatim>\<open>NotImplementedError\<close>: the lookup of \<^verbatim>\<open>'name'\<close> is never reached. The code
  evaluated on three fonts: one whose directory holds a \<^verbatim>\<open>head\<close> table and no \<^verbatim>\<open>name\<close>
  table raises \<^verbatim>\<open>NotImplementedError\<close> where the error of the missing table is due;
  one whose directory holds a \<^verbatim>\<open>name\<close> table raises \<^verbatim>\<open>NotImplementedError\<close> before
  any table object exists to read the name from; one with an empty directory raises
  the \<^verbatim>\<open>KeyError\<close>.
\<close>

theorem family_name_raises_not_implemented:
  "map fst (fst (fst (iter_table_records \<lparr>contents = font_head_only, pos = 0\<rparr>))) = [Str ''head'']
   \<and> fst (family_name \<lparr>contents = font_head_only, pos = 0\<rparr>) = Inl NotImplementedError
   \<and> fst (family_name \<lparr>contents = font_head_only, pos = 0\<rparr>) \<noteq> Inl KeyError
   \<and> map fst (fst (fst (iter_table_records \<lparr>contents = font_name_only, pos = 0\<rparr>))) = [Str ''name'']
   \<and> fst (family_name \<lparr>contents = font_name_only, pos = 0\<rparr>) = Inl NotImplementedError
   \<and> fst (family_name \<lparr>contents = font_no_tables, pos = 0\<rparr>) = Inl KeyError"
  using iter_table_records_value [of "\<lparr>contents = font_head_only, pos = 0\<rparr>"]
    iter_table_records_value [of "\<lparr>contents = font_name_only, pos = 0\<rparr>"]
  by (simp add: family_name_value length_font_head_only count_font_head_only
      record_font_head_only length_font_name_only count_font_name_only record_font_name_only
      length_font_no_tables count_font_no_tables)

subsection \<open>The directory scanner\<close>

lemma scan_files_Cons:
  "scan_files rd h root (filename # filenames) =
     (if \<not> has_font_ext filename then scan_files rd h root filenames
      else case rd (abspath h (path_join root [filename])) of
             Inl e \<Rightarrow> ([], [Open (abspath h (path_join root [filename]))], Some e)
           | Inr key \<Rightarrow>
               (case scan_files rd h root filenames of
                  (items, evs, err) \<Rightarrow>
                    ((key, abspath h (path_join root [filename])) # items,
                     Open (abspath h (path_join root [filename])) # evs, err)))"
  by (simp add: has_font_ext_def Let_def)

lemma read_in_order_Nil: "read_in_order rd [] = ([], [], None)"
  by (simp add: read_in_order_def readable_def)

lemma read_in_order_Cons:
  "read_in_order rd (path # paths) =
     (case rd path of
        Inl e \<Rightarrow> ([], [Open path], Some e)
      | Inr key \<Rightarrow>
          (case read_in_order rd paths of
             (items, evs, err) \<Rightarrow> ((key, path) # items, Open path # evs, err)))"
  by (cases "rd path") (simp_all add: read_in_order_def readable_def)

lemma read_in_order_append:
  "read_in_order rd (paths @ paths') =
     (case read_in_order rd paths of
        (items, evs, Some e) \<Rightarrow> (items, evs, Some e)
      | (items, evs, None) \<Rightarrow>
          (case read_in_order rd paths' of
             (items', evs', err) \<Rightarrow> (items @ items', evs @ evs', err)))"
proof (induction paths)
  case Nil
  then show ?case by (simp add: read_in_order_Nil split: prod.splits)
next
  case (Cons path paths)
  then show ?case
    by (cases "rd path")
       (auto simp: read_in_order_Cons split: prod.splits option.splits)
qed

lemma scan_files_eq:
  "scan_files rd h root filenames =
     read_in_order rd
       (map (\<lambda>filename. abspath h (path_join root [filename])) (filter has_font_ext filenames))"
proof (induction filenames)
  case Nil
  then show ?case by (simp add: read_in_order_Nil)
next
  case (Cons filename filenames)
  then show ?case
    by (simp add: scan_files_Cons read_in_order_Cons del: scan_files.simps(2)
        split: sum.splits)
qed

lemma scan_walk_eq: "scan_walk rd h triples = read_in_order rd (font_paths h triples)"
proof (induction triples)
  case Nil
  then show ?case by (simp add: font_paths_def read_in_order_Nil)
next
  case (Cons triple triples)
  obtain root dirs filenames where triple: "triple = (root, dirs, filenames)"
    by (cases triple)
  have paths: "font_paths h (triple # triples) =
      map (\<lambda>filename. abspath h (path_join root [filename])) (filter has_font_ext filenames)
      @ font_paths h triples"
    by (simp add: font_paths_def triple)
  show ?case
    unfolding paths read_in_order_append
    using Cons by (simp add: triple scan_files_eq split: prod.splits option.splits)
qed

lemma iter_font_files_in_with_eq:
  "iter_font_files_in_with rd h directory =
     (case read_in_order rd (font_paths h (walk h directory)) of
        (items, evs, err) \<Rightarrow> (items, Walk directory # evs, err))"
  by (simp add: iter_font_files_in_with_def scan_walk_eq)


lemma isabs_normpath: "isabs path \<Longrightarrow> isabs (normpath path)"
  by (cases path) (auto simp: isabs_def startswith_def normpath_def Let_def)

lemma isabs_join2: "isabs a \<Longrightarrow> isabs (join2 a b)"
  by (cases a) (auto simp: isabs_def startswith_def join2_def)

lemma isabs_abspath: "isabs (cwd h) \<Longrightarrow> isabs (abspath h path)"
  by (simp add: abspath_def path_join_def isabs_normpath isabs_join2)

lemma in_font_paths:
  "path \<in> set (font_paths h triples) \<longleftrightarrow>
     (\<exists>root dirs filenames filename.
        (root, dirs, filenames) \<in> set triples \<and> filename \<in> set filenames
        \<and> has_font_ext filename \<and> path = abspath h (path_join root [filename]))"
  by (force simp: font_paths_def)

lemma isabs_font_paths:
  "isabs (cwd h) \<Longrightarrow> path \<in> set (font_paths h triples) \<Longrightarrow> isabs path"
  by (auto simp: in_font_paths isabs_abspath)

lemma readable_prefix: "readable rd paths = take (length (readable rd paths)) paths"
  unfolding readable_def by (rule takeWhile_eq_take)

lemma set_readable: "set (readable rd paths) \<subseteq> set paths"
  unfolding readable_def by (auto dest: set_takeWhileD)

lemma readable_reads: "path \<in> set (readable rd paths) \<Longrightarrow> rd path = Inr (projr (rd path))"
  unfolding readable_def by (cases "rd path") (auto dest: set_takeWhileD)

lemma readable_opened:
  "set (readable rd paths) \<subseteq> set (take (Suc (length (readable rd paths))) paths)"
proof -
  have "set (take (length (readable rd paths)) paths)
          \<subseteq> set (take (Suc (length (readable rd paths))) paths)"
    by (rule set_take_subset_set_take) simp
  then show ?thesis using readable_prefix [of rd paths] by simp
qed

lemma readable_all:
  "dropWhile (\<lambda>path. \<not> isl (rd path)) paths = [] \<Longrightarrow> readable rd paths = paths"
  by (simp add: readable_def)

subsection \<open>Scans of the example hosts\<close>

lemma scan_arial:
  "iter_font_files_in_with arial_reader host_arial ''/Library/Fonts'' =
     ([((''Arial'', False, False), ''/Library/Fonts/a.ttf''),
       ((''Arial'', False, False), ''/Library/Fonts/b.TTF'')],
      [Walk ''/Library/Fonts'', Open ''/Library/Fonts/a.ttf'', Open ''/Library/Fonts/b.TTF''],
      None)"
  by code_simp

lemma scan_picky:
  "iter_font_files_in_with picky_reader host_arial ''/Library/Fonts'' =
     ([((''Arial'', False, False), ''/Library/Fonts/a.ttf'')],
      [Walk ''/Library/Fonts'', Open ''/Library/Fonts/a.ttf'', Open ''/Library/Fonts/b.TTF''],
      Some StructError)"
  by code_simp

lemma font_paths_mac_library:
  "font_paths host_mac (walk host_mac ''/Library/Fonts'') =
     [''/Library/Fonts/bad.ttf'', ''/Library/Fonts/Good.OTF'']"
  by code_simp

lemma font_paths_mac_system:
  "font_paths host_mac (walk host_mac ''/System/Library/Fonts'') =
     [''/System/Library/Fonts/A.TTF'', ''/System/Library/Fonts/sub/b.otf'']"
  by code_simp

lemma font_key_of_bad: "font_key_of host_mac ''/Library/Fonts/bad.ttf'' = Inl StructError"
  using family_name_value [of "\<lparr>contents = [], pos = 0\<rparr>"]
  by (cases "family_name \<lparr>contents = [], pos = 0\<rparr>")
     (simp add: font_key_of_def host_mac_def)

lemma font_key_of_A: "font_key_of host_mac ''/System/Library/Fonts/A.TTF'' = Inl KeyError"
  using family_name_value [of "\<lparr>contents = font_no_tables, pos = 0\<rparr>"]
  by (cases "family_name \<lparr>contents = font_no_tables, pos = 0\<rparr>")
     (simp add: font_key_of_def host_mac_def length_font_no_tables count_font_no_tables)

lemma scan_mac_library:
  "iter_font_files_in host_mac ''/Library/Fonts'' =
     ([], [Walk ''/Library/Fonts'', Open ''/Library/Fonts/bad.ttf''], Some StructError)"
  by (simp add: iter_font_files_in_def iter_font_files_in_with_eq font_paths_mac_library
      read_in_order_Cons font_key_of_bad)

lemma scan_mac_system:
  "iter_font_files_in host_mac ''/System/Library/Fonts'' =
     ([], [Walk ''/System/Library/Fonts'', Open ''/System/Library/Fonts/A.TTF''], Some KeyError)"
  by (simp add: iter_font_files_in_def iter_font_files_in_with_eq font_paths_mac_system
      read_in_order_Cons font_key_of_A)

subsection \<open>A failing file ends the scan\<close>

text \<open>
  C4, as the code has it. The scanner has no handler around the block that opens and
  reads a font file. A scan reads the font files of the walk in order; every file read
  yields its item; the first file whose opening or parsing raises ends the scan with
  that exception: the items of the files before it have been yielded, the failing file
  has been opened, and no file after it is opened. Only a scan in which no file fails
  reads every font file.
\<close>

theorem scan_ends_at_first_failure:
  "iter_font_files_in_with rd h directory =
     (let paths = font_paths h (walk h directory) in
      (map (\<lambda>path. (projr (rd path), path)) (readable rd paths),
       Walk directory # map Open (take (Suc (length (readable rd paths))) paths),
       case dropWhile (\<lambda>path. \<not> isl (rd path)) paths of
         [] \<Rightarrow> None
       | path # rest \<Rightarrow> Some (projl (rd path))))
   \<and> iter_font_files_in h directory = iter_font_files_in_with (font_key_of h) h directory"
  by (simp add: iter_font_files_in_with_eq read_in_order_def iter_font_files_in_def Let_def)

theorem scan_ends_at_first_failure_witness:
  "font_paths host_arial (walk host_arial ''/Library/Fonts'')
     = [''/Library/Fonts/a.ttf'', ''/Library/Fonts/b.TTF'']
   \<and> readable picky_reader [''/Library/Fonts/a.ttf'', ''/Library/Fonts/b.TTF'']
     = [''/Library/Fonts/a.ttf'']
   \<and> iter_font_files_in_with picky_reader host_arial ''/Library/Fonts'' =
     ([((''Arial'', False, False), ''/Library/Fonts/a.ttf'')],
      [Walk ''/Library/Fonts'', Open ''/Library/Fonts/a.ttf'', Open ''/Library/Fonts/b.TTF''],
      Some StructError)"
proof -
  have paths: "font_paths host_arial (walk host_arial ''/Library/Fonts'')
     = [''/Library/Fonts/a.ttf'', ''/Library/Fonts/b.TTF'']"
    by code_simp
  show ?thesis
    using scan_ends_at_first_failure [of picky_reader host_arial "''/Library/Fonts''"]
    by (simp add: paths readable_def picky_reader_def Let_def)
qed

text \<open>
  The claim as the specification states it fails on \<^verbatim>\<open>/Library/Fonts\<close> of the example
  Mac: the empty file \<^verbatim>\<open>bad.ttf\<close> is not skipped, its \<^verbatim>\<open>struct.error\<close> ends the scan, and
  \<^verbatim>\<open>Good.OTF\<close> after it is never opened.
\<close>

theorem scan_skips_bad_file_counterexample:
  "files host_mac ''/Library/Fonts/bad.ttf'' = Some []
   \<and> iter_font_files_in host_mac ''/Library/Fonts'' =
     ([], [Walk ''/Library/Fonts'', Open ''/Library/Fonts/bad.ttf''], Some StructError)"
  by (simp add: scan_mac_library) (simp add: host_mac_def)

subsection \<open>The files a scan opens\<close>

text \<open>
  C8, as the code has it. Every file a scan opens is a file of the walk whose extension
  is \<^verbatim>\<open>.otf\<close> or \<^verbatim>\<open>.ttf\<close> without regard to case, opened by the absolute path made of
  its root and name: a file with another extension is never opened. Every item yielded
  is the descriptor the reader returns for a file that was opened, with that path. When
  no file of the scan fails, the scan opens and yields exactly these files, in the order
  of the walk. The paths are absolute when the working directory is.
\<close>

theorem scan_opens_only_font_files:
  assumes "iter_font_files_in_with rd h directory = (items, evs, err)"
  shows "(\<forall>path. Open path \<in> set evs \<longrightarrow>
            (\<exists>root dirs filenames filename.
               (root, dirs, filenames) \<in> set (walk h directory) \<and> filename \<in> set filenames
               \<and> has_font_ext filename \<and> path = abspath h (path_join root [filename])))
         \<and> (\<forall>key path. (key, path) \<in> set items \<longrightarrow>
               Open path \<in> set evs \<and> rd path = Inr key)
         \<and> (err = None \<longrightarrow>
               map snd items = font_paths h (walk h directory)
               \<and> evs = Walk directory # map Open (font_paths h (walk h directory)))
         \<and> (isabs (cwd h) \<longrightarrow> (\<forall>key path. (key, path) \<in> set items \<longrightarrow> isabs path))"
proof -
  let ?paths = "font_paths h (walk h directory)"
  from assms have items: "items = map (\<lambda>path. (projr (rd path), path)) (readable rd ?paths)"
    and evs: "evs = Walk directory # map Open (take (Suc (length (readable rd ?paths))) ?paths)"
    and err: "err = (case dropWhile (\<lambda>path. \<not> isl (rd path)) ?paths of
                       [] \<Rightarrow> None | path # rest \<Rightarrow> Some (projl (rd path)))"
    by (simp_all add: iter_font_files_in_with_eq read_in_order_def)
  have 1: "\<forall>path. Open path \<in> set evs \<longrightarrow>
            (\<exists>root dirs filenames filename.
               (root, dirs, filenames) \<in> set (walk h directory) \<and> filename \<in> set filenames
               \<and> has_font_ext filename \<and> path = abspath h (path_join root [filename]))"
  proof (intro allI impI)
    fix path assume "Open path \<in> set evs"
    then have "path \<in> set (take (Suc (length (readable rd ?paths))) ?paths)"
      by (auto simp: evs)
    then have "path \<in> set ?paths" by (rule in_set_takeD)
    then show "\<exists>root dirs filenames filename.
               (root, dirs, filenames) \<in> set (walk h directory) \<and> filename \<in> set filenames
               \<and> has_font_ext filename \<and> path = abspath h (path_join root [filename])"
      by (simp add: in_font_paths)
  qed
  have 2: "\<forall>key path. (key, path) \<in> set items \<longrightarrow> Open path \<in> set evs \<and> rd path = Inr key"
    using readable_opened [of rd ?paths] readable_reads [of _ rd ?paths]
    by (auto simp: items evs)
  have 3: "err = None \<longrightarrow> map snd items = ?paths \<and> evs = Walk directory # map Open ?paths"
  proof
    assume "err = None"
    then have "dropWhile (\<lambda>path. \<not> isl (rd path)) ?paths = []"
      by (simp add: err split: list.splits)
    then have "readable rd ?paths = ?paths" by (rule readable_all)
    then show "map snd items = ?paths \<and> evs = Walk directory # map Open ?paths"
      by (simp add: items evs comp_def)
  qed
  have 4: "isabs (cwd h) \<longrightarrow> (\<forall>key path. (key, path) \<in> set items \<longrightarrow> isabs path)"
    using set_readable [of rd ?paths] isabs_font_paths [of h _ "walk h directory"]
    by (auto simp: items)
  from 1 2 3 4 show ?thesis by blast
qed

theorem scan_opens_only_font_files_witness:
  "iter_font_files_in_with arial_reader host_arial ''/Library/Fonts'' =
     ([((''Arial'', False, False), ''/Library/Fonts/a.ttf''),
       ((''Arial'', False, False), ''/Library/Fonts/b.TTF'')],
      [Walk ''/Library/Fonts'', Open ''/Library/Fonts/a.ttf'', Open ''/Library/Fonts/b.TTF''],
      None)
   \<and> font_paths host_arial (walk host_arial ''/Library/Fonts'')
     = [''/Library/Fonts/a.ttf'', ''/Library/Fonts/b.TTF'']
   \<and> isabs (cwd host_arial)
   \<and> isabs ''/Library/Fonts/a.ttf'' \<and> isabs ''/Library/Fonts/b.TTF''
   \<and> has_font_ext ''a.ttf'' \<and> has_font_ext ''b.TTF'' \<and> \<not> has_font_ext ''readme.txt''"
proof -
  have abs: "isabs (cwd host_arial)" by code_simp
  have ext: "has_font_ext ''a.ttf'' \<and> has_font_ext ''b.TTF'' \<and> \<not> has_font_ext ''readme.txt''"
    by code_simp
  note scan = scan_opens_only_font_files [OF scan_arial]
  from scan have paths: "font_paths host_arial (walk host_arial ''/Library/Fonts'')
     = [''/Library/Fonts/a.ttf'', ''/Library/Fonts/b.TTF'']"
    by simp
  from scan abs have yielded: "\<forall>key path.
      (key, path) \<in> set [((''Arial'', False, False), ''/Library/Fonts/a.ttf''),
                          ((''Arial'', False, False), ''/Library/Fonts/b.TTF'')] \<longrightarrow> isabs path"
    by blast
  have "isabs ''/Library/Fonts/a.ttf''"
    using yielded [rule_format, of "(''Arial'', False, False)" "''/Library/Fonts/a.ttf''"]
    by simp
  moreover have "isabs ''/Library/Fonts/b.TTF''"
    using yielded [rule_format, of "(''Arial'', False, False)" "''/Library/Fonts/b.TTF''"]
    by simp
  ultimately show ?thesis using paths abs ext by (simp add: scan_arial)
qed

text \<open>
  The claim as the specification states it fails on \<^verbatim>\<open>/System/Library/Fonts\<close> of the
  example Mac: \<^verbatim>\<open>A.TTF\<close> and \<^verbatim>\<open>sub/b.otf\<close> both have a font extension, but \<^verbatim>\<open>A.TTF\<close> is
  opened and not yielded, and \<^verbatim>\<open>b.otf\<close> is neither opened nor yielded.
\<close>

theorem scan_yields_font_files_counterexample:
  "has_font_ext ''A.TTF'' \<and> has_font_ext ''b.otf''
   \<and> walk host_mac ''/System/Library/Fonts'' =
     [(''/System/Library/Fonts'', [''sub''], [''A.TTF'']),
      (''/System/Library/Fonts/sub'', [], [''b.otf''])]
   \<and> iter_font_files_in host_mac ''/System/Library/Fonts'' =
     ([], [Walk ''/System/Library/Fonts'', Open ''/System/Library/Fonts/A.TTF''], Some KeyError)"
proof -
  have ext: "has_font_ext ''A.TTF'' \<and> has_font_ext ''b.otf''" by code_simp
  have wlk: "walk host_mac ''/System/Library/Fonts'' =
     [(''/System/Library/Fonts'', [''sub''], [''A.TTF'']),
      (''/System/Library/Fonts/sub'', [], [''b.otf''])]"
    by (simp add: host_mac_def)
  show ?thesis using ext wlk by (simp add: scan_mac_system)
qed

subsection \<open>Building the registry\<close>

lemma store_items_eq: "store_items items fonts = fonts ++ map_of (rev items)"
  by (induction items arbitrary: fonts) (auto simp: map_add_upd_left)

lemma map_of_rev_last:
  "map_of (rev items) key =
     (case filter (\<lambda>(key', path). key' = key) items of
        [] \<Rightarrow> None
      | item # rest \<Rightarrow> Some (snd (last (item # rest))))"
proof (induction items rule: rev_induct)
  case Nil
  then show ?case by simp
next
  case (snoc item items)
  then show ?case
    by (cases item) (auto split: list.splits)
qed

lemma scan_directories_fonts:
  assumes "scan_directories rd h ds fonts = (Inr fonts', evs)"
  shows "fonts' = fonts ++ map_of (rev (concat (map (\<lambda>d. fst (iter_font_files_in_with rd h d)) ds)))"
  using assms
proof (induction ds arbitrary: fonts evs)
  case Nil
  then show ?case by simp
next
  case (Cons d ds)
  obtain items evs1 err where it: "iter_font_files_in_with rd h d = (items, evs1, err)"
    by (cases "iter_font_files_in_with rd h d")
  with Cons.prems have err: "err = None" by (cases err) simp_all
  obtain r evs2 where rest: "scan_directories rd h ds (store_items items fonts) = (r, evs2)"
    by (cases "scan_directories rd h ds (store_items items fonts)")
  with Cons.prems it err have r: "r = Inr fonts'" by simp
  from Cons.IH [OF rest [unfolded r]]
  show ?case by (simp add: it store_items_eq map_add_assoc)
qed

lemma scan_files_no_walk: "filter is_walk (fst (snd (read_in_order rd paths))) = []"
  by (simp add: read_in_order_def filter_empty_conv)

lemma scan_directories_walks:
  assumes "scan_directories rd h ds fonts = (Inr fonts', evs)"
  shows "filter is_walk evs = map Walk ds"
  using assms
proof (induction ds arbitrary: fonts evs)
  case Nil
  then show ?case by simp
next
  case (Cons d ds)
  obtain items evs1 err where it: "iter_font_files_in_with rd h d = (items, evs1, err)"
    by (cases "iter_font_files_in_with rd h d")
  with Cons.prems have err: "err = None" by (cases err) simp_all
  obtain r evs2 where rest: "scan_directories rd h ds (store_items items fonts) = (r, evs2)"
    by (cases "scan_directories rd h ds (store_items items fonts)")
  with Cons.prems it err have r: "r = Inr fonts'" and evs: "evs = evs1 @ evs2" by simp_all
  from it have "filter is_walk evs1 = [Walk d]"
    using scan_files_no_walk [of rd "font_paths h (walk h d)"]
    by (auto simp: iter_font_files_in_with_eq split: prod.splits)
  with Cons.IH [OF rest [unfolded r]] show ?case by (simp add: evs)
qed


lemma installed_fonts_map:
  assumes "font_directories h = Inr ds"
    and "installed_fonts_with rd h = (Inr fonts, evs)"
  shows "fonts = map_of (rev (concat (map (\<lambda>d. fst (iter_font_files_in_with rd h d)) ds)))"
proof -
  from assms have "scan_directories rd h ds Map.empty = (Inr fonts, evs)"
    by (simp add: installed_fonts_with_def)
  then show ?thesis using scan_directories_fonts by fastforce
qed

lemma installed_fonts_walks:
  assumes "font_directories h = Inr ds"
    and "installed_fonts_with rd h = (Inr fonts, evs)"
  shows "filter is_walk evs = map Walk ds"
  using assms scan_directories_walks [of rd h ds Map.empty fonts evs]
  by (simp add: installed_fonts_with_def)

lemma font_directories_arial:
  "font_directories host_arial =
     Inr [''/Library/Fonts'', ''/Network/Library/Fonts'', ''/System/Library/Fonts'',
          ''/Users/me/Library/Fonts'', ''/Users/me/.fonts'']"
  by code_simp

lemma installed_fonts_arial:
  "case installed_fonts_with arial_reader host_arial of
     (Inl e, evs) \<Rightarrow> False
   | (Inr fonts, evs) \<Rightarrow>
       evs = [Walk ''/Library/Fonts'', Open ''/Library/Fonts/a.ttf'',
              Open ''/Library/Fonts/b.TTF'', Walk ''/Network/Library/Fonts'',
              Walk ''/System/Library/Fonts'', Walk ''/Users/me/Library/Fonts'',
              Walk ''/Users/me/.fonts'']"
  by code_simp

lemma items_arial:
  "concat (map (\<lambda>d. fst (iter_font_files_in_with arial_reader host_arial d))
     [''/Library/Fonts'', ''/Network/Library/Fonts'', ''/System/Library/Fonts'',
      ''/Users/me/Library/Fonts'', ''/Users/me/.fonts''])
   = [((''Arial'', False, False), ''/Library/Fonts/a.ttf''),
      ((''Arial'', False, False), ''/Library/Fonts/b.TTF'')]"
  by code_simp

lemma font_directories_mac:
  "font_directories host_mac =
     Inr [''/Library/Fonts'', ''/Network/Library/Fonts'', ''/System/Library/Fonts'']"
  by code_simp

lemma installed_fonts_mac:
  "installed_fonts host_mac =
     (Inl StructError, [Walk ''/Library/Fonts'', Open ''/Library/Fonts/bad.ttf''])"
  using scan_mac_library
  by (simp add: installed_fonts_def installed_fonts_with_def font_directories_mac
      iter_font_files_in_def)

text \<open>
  C3. When the build of the registry succeeds, the registry is the map of the items
  that the scans of the platform's directories yield, in the order of the scans, in
  which a later item replaces an earlier item of the same descriptor: a descriptor
  that no file yields has no entry, and every other descriptor has exactly one path,
  that of the last file scanned that yields it.
\<close>

theorem registry_last_write_wins:
  assumes "font_directories h = Inr ds"
    and "installed_fonts_with rd h = (Inr fonts, evs)"
  shows "fonts = map_of (rev (concat (map (\<lambda>d. fst (iter_font_files_in_with rd h d)) ds)))
         \<and> (\<forall>key. fonts key =
               (case filter (\<lambda>(key', path). key' = key)
                       (concat (map (\<lambda>d. fst (iter_font_files_in_with rd h d)) ds)) of
                  [] \<Rightarrow> None
                | item # rest \<Rightarrow> Some (snd (last (item # rest)))))"
  using installed_fonts_map [OF assms] by (simp only: map_of_rev_last) simp

theorem registry_last_write_wins_witness:
  "\<exists>fonts evs.
     font_directories host_arial =
       Inr [''/Library/Fonts'', ''/Network/Library/Fonts'', ''/System/Library/Fonts'',
            ''/Users/me/Library/Fonts'', ''/Users/me/.fonts'']
     \<and> installed_fonts_with arial_reader host_arial = (Inr fonts, evs)
     \<and> concat (map (\<lambda>d. fst (iter_font_files_in_with arial_reader host_arial d))
          [''/Library/Fonts'', ''/Network/Library/Fonts'', ''/System/Library/Fonts'',
           ''/Users/me/Library/Fonts'', ''/Users/me/.fonts''])
        = [((''Arial'', False, False), ''/Library/Fonts/a.ttf''),
           ((''Arial'', False, False), ''/Library/Fonts/b.TTF'')]
     \<and> fonts (''Arial'', False, False) = Some ''/Library/Fonts/b.TTF''
     \<and> fonts (''Arial'', True, False) = None"
proof -
  obtain fonts evs where built: "installed_fonts_with arial_reader host_arial = (Inr fonts, evs)"
    using installed_fonts_arial
    by (cases "installed_fonts_with arial_reader host_arial") (auto split: sum.splits)
  from registry_last_write_wins [OF font_directories_arial built, unfolded items_arial]
  have "fonts (''Arial'', False, False) = Some ''/Library/Fonts/b.TTF''"
    and "fonts (''Arial'', True, False) = None"
    by simp_all
  with built font_directories_arial items_arial show ?thesis by blast
qed


text \<open>
  C2. When the class holds no registry and the build succeeds, the first call of
  \<^verbatim>\<open>find\<close> walks every directory of the platform, in order, and assigns the registry
  to the class. Every call after it, with any arguments and on any host (also one whose
  fonts have changed), looks its descriptor up in that registry, leaves the class as it
  is and walks no directory and opens no file.
\<close>

theorem registry_built_once:
  assumes "font_files cls = None"
    and "font_directories h = Inr ds"
    and "installed_fonts_with rd h = (Inr fonts, evs)"
  shows "find_with rd h cls name bold italic =
           (getitem fonts (name, bold, italic), cls\<lparr>font_files := Some fonts\<rparr>, evs)
         \<and> filter is_walk evs = map Walk ds
         \<and> (\<forall>rd' h' name' bold' italic'.
               find_with rd' h' (cls\<lparr>font_files := Some fonts\<rparr>) name' bold' italic' =
                 (getitem fonts (name', bold', italic'), cls\<lparr>font_files := Some fonts\<rparr>, [])
               \<and> find_font h' (cls\<lparr>font_files := Some fonts\<rparr>) name' bold' italic' =
                 (getitem fonts (name', bold', italic'), cls\<lparr>font_files := Some fonts\<rparr>, []))"
  using assms installed_fonts_walks [OF assms(2,3)]
  by (simp add: find_with_def find_font_def)

theorem registry_built_once_witness:
  "\<exists>fonts evs.
     font_files \<lparr>font_files = None\<rparr> = None
     \<and> installed_fonts_with arial_reader host_arial = (Inr fonts, evs)
     \<and> find_with arial_reader host_arial \<lparr>font_files = None\<rparr> ''Arial'' False False =
         (Inr ''/Library/Fonts/b.TTF'', \<lparr>font_files = Some fonts\<rparr>, evs)
     \<and> filter is_walk evs =
         [Walk ''/Library/Fonts'', Walk ''/Network/Library/Fonts'',
          Walk ''/System/Library/Fonts'', Walk ''/Users/me/Library/Fonts'',
          Walk ''/Users/me/.fonts'']
     \<and> find_font host_mac \<lparr>font_files = Some fonts\<rparr> ''Arial'' False False =
         (Inr ''/Library/Fonts/b.TTF'', \<lparr>font_files = Some fonts\<rparr>, [])
     \<and> find_font host_linux \<lparr>font_files = Some fonts\<rparr> ''Courier'' True False =
         (Inl KeyError, \<lparr>font_files = Some fonts\<rparr>, [])"
proof -
  obtain fonts evs where built: "installed_fonts_with arial_reader host_arial = (Inr fonts, evs)"
    using installed_fonts_arial
    by (cases "installed_fonts_with arial_reader host_arial") (auto split: sum.splits)
  from installed_fonts_map [OF font_directories_arial built, unfolded items_arial]
  have arial: "fonts (''Arial'', False, False) = Some ''/Library/Fonts/b.TTF''"
    and courier: "fonts (''Courier'', True, False) = None"
    by simp_all
  have unset: "font_files \<lparr>font_files = None\<rparr> = None" by simp
  note once = registry_built_once [OF unset font_directories_arial built]
  from once [of "''Arial''" False False] arial courier built
  show ?thesis by (simp add: getitem_def)
qed

text \<open>
  C10. When the class holds no registry and the build raises, \<^verbatim>\<open>find\<close> raises the
  same exception and leaves the class as it was, without a registry: the assignment to
  \<^verbatim>\<open>_font_files\<close> is not reached, and the items stored before the exception are lost.
  The next call of \<^verbatim>\<open>find\<close> therefore runs the whole build again: its events are
  those of a build, and its result that of the build followed by the lookup.
\<close>

theorem failed_build_leaves_registry_unset:
  assumes "font_files cls = None"
    and "installed_fonts_with rd h = (Inl e, evs)"
  shows "find_with rd h cls name bold italic = (Inl e, cls, evs)
         \<and> (\<forall>rd' h' name' bold' italic'.
               snd (snd (find_with rd' h' cls name' bold' italic'))
                 = snd (installed_fonts_with rd' h')
               \<and> fst (find_with rd' h' cls name' bold' italic')
                 = (case fst (installed_fonts_with rd' h') of
                      Inl e' \<Rightarrow> Inl e'
                    | Inr fonts \<Rightarrow> getitem fonts (name', bold', italic')))"
  using assms
  by (auto simp: find_with_def split: prod.splits sum.splits)

theorem failed_build_leaves_registry_unset_witness:
  "font_files \<lparr>font_files = None\<rparr> = None
   \<and> installed_fonts_with (font_key_of host_mac) host_mac =
       (Inl StructError, [Walk ''/Library/Fonts'', Open ''/Library/Fonts/bad.ttf''])
   \<and> find_font host_mac \<lparr>font_files = None\<rparr> ''Arial'' False False =
       (Inl StructError, \<lparr>font_files = None\<rparr>,
        [Walk ''/Library/Fonts'', Open ''/Library/Fonts/bad.ttf''])
   \<and> snd (snd (find_font host_mac \<lparr>font_files = None\<rparr> ''Arial'' False False))
       = snd (installed_fonts host_mac)"
proof -
  have unset: "font_files \<lparr>font_files = None\<rparr> = None" by simp
  have failed: "installed_fonts_with (font_key_of host_mac) host_mac =
       (Inl StructError, [Walk ''/Library/Fonts'', Open ''/Library/Fonts/bad.ttf''])"
    using installed_fonts_mac by (simp add: installed_fonts_def)
  from failed_build_leaves_registry_unset [OF unset failed, of "''Arial''" False False]
  show ?thesis using failed by (simp add: find_font_def installed_fonts_def)
qed

subsection \<open>Platforms without font directories\<close>

text \<open>
  C5. On a platform whose name starts with neither \<^verbatim>\<open>darwin\<close> nor \<^verbatim>\<open>win32\<close>, the
  enumeration of the font directories raises \<^verbatim>\<open>OSError('unsupported operating system')\<close>
  (the specification's \<^verbatim>\<open>UnsupportedPlatformError\<close>) instead of returning a list, and a
  call of \<^verbatim>\<open>find\<close> that has to build the registry raises it to its caller before any
  directory is walked, leaving the class without a registry.
\<close>

theorem unsupported_platform_fails:
  assumes "\<not> startswith (platform h) ''darwin''"
    and "\<not> startswith (platform h) ''win32''"
  shows "font_directories h = Inl OSError
         \<and> installed_fonts_with rd h = (Inl OSError, [])
         \<and> installed_fonts h = (Inl OSError, [])
         \<and> (font_files cls = None \<longrightarrow>
               find_with rd h cls name bold italic = (Inl OSError, cls, [])
               \<and> find_font h cls name bold italic = (Inl OSError, cls, []))"
  using assms
  by (simp add: font_directories_def installed_fonts_with_def installed_fonts_def
      find_with_def find_font_def)

theorem unsupported_platform_fails_witness:
  "\<not> startswith (platform host_linux) ''darwin''
   \<and> \<not> startswith (platform host_linux) ''win32''
   \<and> font_directories host_linux = Inl OSError
   \<and> font_files \<lparr>font_files = None\<rparr> = None
   \<and> find_font host_linux \<lparr>font_files = None\<rparr> ''Arial'' False False =
       (Inl OSError, \<lparr>font_files = None\<rparr>, [])"
proof -
  have d: "\<not> startswith (platform host_linux) ''darwin''" by code_simp
  have w: "\<not> startswith (platform host_linux) ''win32''" by code_simp
  from unsupported_platform_fails [OF d w, of "font_key_of host_linux" "\<lparr>font_files = None\<rparr>"
      "''Arial''" False False] d w
  show ?thesis by simp
qed

text \<open>
  The enumeration never returns an empty list; on \<^verbatim>\<open>win32\<close>, a platform the module
  names, it raises \<^verbatim>\<open>NotImplementedError\<close>.
\<close>

lemma font_directories_never_empty: "font_directories h \<noteq> Inr []"
  by (simp add: font_directories_def os_x_font_directories_def windows_font_directories_def
      Let_def split: option.splits)

lemma font_directories_windows: "font_directories host_windows = Inl NotImplementedError"
  by code_simp

subsection \<open>Lookup in a built registry\<close>

text \<open>
  C6. When the class holds a registry, \<^verbatim>\<open>find\<close> returns the path stored for the
  descriptor, and raises the \<^verbatim>\<open>KeyError\<close> of the dict (the specification's
  \<^verbatim>\<open>NotFoundError\<close>) when the registry has no entry for it; the class is unchanged and
  nothing is scanned.
\<close>

theorem find_in_built_registry:
  assumes "font_files cls = Some fonts"
  shows "find_with rd h cls name bold italic =
           (case fonts (name, bold, italic) of
              None \<Rightarrow> (Inl KeyError, cls, [])
            | Some path \<Rightarrow> (Inr path, cls, []))
         \<and> find_font h cls name bold italic = find_with rd h cls name bold italic"
  using assms by (simp add: find_with_def find_font_def getitem_def split: option.splits)

theorem find_in_built_registry_witness:
  "font_files \<lparr>font_files = Some [(''Arial'', False, False) \<mapsto> ''/Library/Fonts/Arial.ttf'']\<rparr>
     = Some [(''Arial'', False, False) \<mapsto> ''/Library/Fonts/Arial.ttf'']
   \<and> find_font host_mac
        \<lparr>font_files = Some [(''Arial'', False, False) \<mapsto> ''/Library/Fonts/Arial.ttf'']\<rparr>
        ''Arial'' False False
      = (Inr ''/Library/Fonts/Arial.ttf'',
         \<lparr>font_files = Some [(''Arial'', False, False) \<mapsto> ''/Library/Fonts/Arial.ttf'']\<rparr>, [])
   \<and> find_font host_mac
        \<lparr>font_files = Some [(''Arial'', False, False) \<mapsto> ''/Library/Fonts/Arial.ttf'']\<rparr>
        ''NoSuchFamily'' False False
      = (Inl KeyError,
         \<lparr>font_files = Some [(''Arial'', False, False) \<mapsto> ''/Library/Fonts/Arial.ttf'']\<rparr>, [])"
  using find_in_built_registry
          [of "\<lparr>font_files = Some [(''Arial'', False, False) \<mapsto> ''/Library/Fonts/Arial.ttf'']\<rparr>"
              "[(''Arial'', False, False) \<mapsto> ''/Library/Fonts/Arial.ttf'']"
              "font_key_of host_mac" host_mac "''Arial''" False False]
        find_in_built_registry
          [of "\<lparr>font_files = Some [(''Arial'', False, False) \<mapsto> ''/Library/Fonts/Arial.ttf'']\<rparr>"
              "[(''Arial'', False, False) \<mapsto> ''/Library/Fonts/Arial.ttf'']"
              "font_key_of host_mac" host_mac "''NoSuchFamily''" False False]
  by simp

end
